theory Spec2Isabelle
  imports
    Main
    "HOL-Library.Sublist"
    "HOL-Library.List_Lexorder"
    "HOL-Library.Product_Lexorder"
    "HOL-Library.AList"
    "HOL-Library.Monad_Syntax"
begin

section \<open>Python strings and values\<close>

text \<open>
  A Python \<open>str\<close> is a sequence of Unicode code points: \<open>len\<close> counts code points and
  comparison is lexicographic on them. The generator's constants contain CJK text, so a
  string is modelled as the list of its code points. ASCII literals are written through
  \<open>ascii\<close>, other literals as explicit code points.
\<close>

type_synonym pystr = "nat list"

definition ascii :: "string \<Rightarrow> pystr" where
  "ascii = map of_char"

text \<open>\<open>str.isspace\<close> for one code point: the complete list of Python's whitespace.\<close>

definition py_isspace :: "nat \<Rightarrow> bool" where
  "py_isspace c \<longleftrightarrow>
     (0x9 \<le> c \<and> c \<le> 0xD) \<or> (0x1C \<le> c \<and> c \<le> 0x20) \<or> c = 0x85 \<or> c = 0xA0 \<or>
     c = 0x1680 \<or> (0x2000 \<le> c \<and> c \<le> 0x200A) \<or> c = 0x2028 \<or> c = 0x2029 \<or>
     c = 0x202F \<or> c = 0x205F \<or> c = 0x3000"

definition strip :: "pystr \<Rightarrow> pystr" where
  "strip s = rev (dropWhile py_isspace (rev (dropWhile py_isspace s)))"

text \<open>
  \<open>str.lower\<close>: the letters A to Z move to a to z. Cased letters outside ASCII are left
  as they are, so the model is exact on text whose cased letters are ASCII (ASCII and
  CJK text in particular).
\<close>

definition lower_cp :: "nat \<Rightarrow> nat" where
  "lower_cp c = (if 0x41 \<le> c \<and> c \<le> 0x5A then c + 0x20 else c)"

definition lower :: "pystr \<Rightarrow> pystr" where
  "lower s = map lower_cp s"


text \<open>
  The values a parsed JSON document hands to the normalizer. \<open>PyOther\<close> stands for any
  value that is neither \<open>None\<close>, a \<open>bool\<close>, an \<open>int\<close> nor a \<open>str\<close> (a float, a list or a
  dict). The program observes such a value only through \<open>str()\<close> and \<open>int()\<close>, so the
  constructor carries the text of the former and the outcome of the latter, \<open>None\<close> when
  \<open>int()\<close> raises \<open>TypeError\<close> or \<open>ValueError\<close>. Infinite floats, on which \<open>int()\<close> raises
  \<open>OverflowError\<close>, are outside the model.
\<close>

datatype pyval =
    PyNone
  | PyBool bool
  | PyInt int
  | PyStr pystr
  | PyOther pystr "int option"

fun digits_of :: "nat \<Rightarrow> pystr" where
  "digits_of n = (if n < 10 then [0x30 + n] else digits_of (n div 10) @ [0x30 + n mod 10])"

declare digits_of.simps [simp del]

definition str_of_int :: "int \<Rightarrow> pystr" where
  "str_of_int i = (if i < 0 then 0x2D # digits_of (nat (- i)) else digits_of (nat i))"

fun py_str :: "pyval \<Rightarrow> pystr" where
  "py_str PyNone = ascii ''None''"
| "py_str (PyBool b) = (if b then ascii ''True'' else ascii ''False'')"
| "py_str (PyInt i) = str_of_int i"
| "py_str (PyStr s) = s"
| "py_str (PyOther s r) = s"

text \<open>
  \<open>int(s)\<close> for a string in base 10: surrounding whitespace is dropped, one sign is
  allowed, and the rest must be decimal digits, where single underscores may stand
  between two digits. \<open>None\<close> is \<open>ValueError\<close>. The digits are the ASCII digits; the
  decimal digits of other scripts, which Python reads too, are not modelled.
\<close>

definition is_digit :: "nat \<Rightarrow> bool" where
  "is_digit c \<longleftrightarrow> 0x30 \<le> c \<and> c \<le> 0x39"

fun parse_digits :: "pystr \<Rightarrow> nat \<Rightarrow> nat option" where
  "parse_digits [] acc = Some acc"
| "parse_digits [c] acc = (if is_digit c then Some (10 * acc + (c - 0x30)) else None)"
| "parse_digits (c # d # cs) acc =
     (if is_digit c then
        (if d = 0x5F then
           (case cs of [] \<Rightarrow> None
            | e # es \<Rightarrow> if is_digit e then parse_digits cs (10 * acc + (c - 0x30)) else None)
         else parse_digits (d # cs) (10 * acc + (c - 0x30)))
      else None)"

definition parse_unsigned :: "pystr \<Rightarrow> nat option" where
  "parse_unsigned s = (if s = [] then None else parse_digits s 0)"

definition int_of_str :: "pystr \<Rightarrow> int option" where
  "int_of_str s =
     (case strip s of
        [] \<Rightarrow> None
      | c # cs \<Rightarrow>
          if c = 0x2D then map_option (\<lambda>n. - int n) (parse_unsigned cs)
          else if c = 0x2B then map_option int (parse_unsigned cs)
          else map_option int (parse_unsigned (c # cs)))"

text \<open>\<open>int(value)\<close>; \<open>None\<close> is \<open>TypeError\<close> or \<open>ValueError\<close>.\<close>

fun py_int :: "pyval \<Rightarrow> int option" where
  "py_int PyNone = None"
| "py_int (PyBool b) = Some (if b then 1 else 0)"
| "py_int (PyInt i) = Some i"
| "py_int (PyStr s) = int_of_str s"
| "py_int (PyOther s r) = r"

section \<open>Constant tables\<close>

definition LEVEL_MAP :: "pystr \<rightharpoonup> int" where
  "LEVEL_MAP = map_of [(ascii ''low'', 0), (ascii ''medium'', 1), (ascii ''high'', 2)]"

definition SPEED_MAP :: "pystr \<rightharpoonup> int" where
  "SPEED_MAP = map_of [(ascii ''slow'', 0), (ascii ''normal'', 1), (ascii ''fast'', 2)]"

definition DESIGN_VALUES :: "pystr list" where
  "DESIGN_VALUES = [ascii ''none'', ascii ''wireframe'', ascii ''figma'']"

definition MODE_VALUES :: "pystr list" where
  "MODE_VALUES = [ascii ''minimal'', ascii ''standard'', ascii ''full'', ascii ''single-file'']"

definition COMBO_VALUES :: "pystr list" where
  "COMBO_VALUES = [ascii ''c1'', ascii ''c2'', ascii ''c3'', ascii ''c4'', ascii ''c5'', ascii ''c6'']"

section \<open>The requirement record\<close>

text \<open>
  \<open>load_requirements\<close> returns a dict with thirteen fixed keys; it is the record below.
\<close>

record requirement =
  project_name :: pystr
  project_goal :: pystr
  target_users :: pystr
  team_size :: int
  module_count :: int
  ui_priority :: pystr
  backend_complexity :: pystr
  domain_complexity :: pystr
  compliance_level :: pystr
  design_source :: pystr
  frontend_backend_separation :: bool
  need_fast_validation :: bool
  iteration_speed :: pystr

section \<open>Complexity classifier and mode resolver\<close>

text \<open>
  \<open>complexity_level\<close>. A lookup \<open>LEVEL_MAP[...]\<close> of a missing key raises \<open>KeyError\<close>:
  the result \<open>None\<close>.
\<close>

definition complexity_level :: "requirement \<Rightarrow> pystr option" where
  "complexity_level req = do {
     let team = team_size req;
     let modules = module_count req;
     domain \<leftarrow> LEVEL_MAP (domain_complexity req);
     compliance \<leftarrow> LEVEL_MAP (compliance_level req);
     backend \<leftarrow> LEVEL_MAP (backend_complexity req);
     let separation = (if frontend_backend_separation req then 1 else 0);
     let score = (0::int);
     let score = (if team \<le> 2 then score + 0
                  else if team \<le> 5 then score + 1
                  else if team \<le> 8 then score + 2
                  else score + 3);
     let score = (if modules \<le> 3 then score + 0
                  else if modules \<le> 6 then score + 1
                  else if modules \<le> 10 then score + 2
                  else score + 3);
     let score = score + (domain + compliance + backend + separation);
     Some (if score \<le> 4 then ascii ''S''
           else if score \<le> 7 then ascii ''M''
           else if score \<le> 10 then ascii ''L''
           else ascii ''XL'')
   }"

definition recommend_mode :: "requirement \<Rightarrow> pystr \<Rightarrow> pystr \<Rightarrow> pystr option" where
  "recommend_mode req complexity forced_mode =
     (if forced_mode \<in> set MODE_VALUES then Some forced_mode
      else do {
        compliance \<leftarrow> LEVEL_MAP (compliance_level req);
        if complexity = ascii ''S'' \<and> need_fast_validation req then Some (ascii ''minimal'')
        else if complexity = ascii ''XL'' \<or> compliance = 2 then Some (ascii ''full'')
        else Some (ascii ''standard'')
      })"

section \<open>Requirement normalizer\<close>

definition to_int :: "pyval \<Rightarrow> int \<Rightarrow> int" where
  "to_int value dflt = (case py_int value of Some i \<Rightarrow> i | None \<Rightarrow> dflt)"

definition normalize_level :: "pyval \<Rightarrow> pystr \<Rightarrow> pystr" where
  "normalize_level value dflt =
     (let text = (if value \<noteq> PyNone then lower (strip (py_str value)) else dflt)
      in if LEVEL_MAP text \<noteq> None then text else dflt)"

definition normalize_speed :: "pyval \<Rightarrow> pystr \<Rightarrow> pystr" where
  "normalize_speed value dflt =
     (let text = (if value \<noteq> PyNone then lower (strip (py_str value)) else dflt)
      in if SPEED_MAP text \<noteq> None then text else dflt)"

definition normalize_design :: "pyval \<Rightarrow> pystr \<Rightarrow> pystr" where
  "normalize_design value dflt =
     (let text = (if value \<noteq> PyNone then lower (strip (py_str value)) else dflt)
      in if text \<in> set DESIGN_VALUES then text else dflt)"

definition normalize_bool :: "pyval \<Rightarrow> bool \<Rightarrow> bool" where
  "normalize_bool value dflt =
     (case value of
        PyBool b \<Rightarrow> b
      | PyStr s \<Rightarrow>
          (let lowered = lower (strip s) in
           if lowered \<in> set [ascii ''true'', ascii ''1'', ascii ''yes'', ascii ''y''] then True
           else if lowered \<in> set [ascii ''false'', ascii ''0'', ascii ''no'', ascii ''n''] then False
           else dflt)
      | _ \<Rightarrow> dflt)"

text \<open>
  The parsed JSON object is a map from keys to values; \<open>data.get(key, default)\<close> is
  \<open>dict_get\<close>, and \<open>data.get(key)\<close> has the default \<open>None\<close>. \<open>x or y\<close> on strings is
  \<open>str_or\<close>.
\<close>

definition dict_get :: "(pystr \<rightharpoonup> pyval) \<Rightarrow> pystr \<Rightarrow> pyval \<Rightarrow> pyval" where
  "dict_get data key dflt = (case data key of Some v \<Rightarrow> v | None \<Rightarrow> dflt)"

definition str_or :: "pystr \<Rightarrow> pystr \<Rightarrow> pystr" where
  "str_or x y = (if x = [] then y else x)"

definition default_goal :: pystr where
  "default_goal = [0x5F85, 0x8865, 0x5145, 0x9879, 0x76EE, 0x76EE, 0x6807]"

definition default_users :: pystr where
  "default_users = [0x5F85, 0x8865, 0x5145, 0x76EE, 0x6807, 0x7528, 0x6237]"

definition load_requirements :: "(pystr \<rightharpoonup> pyval) \<Rightarrow> requirement" where
  "load_requirements data =
     \<lparr> project_name =
         str_or (strip (py_str (dict_get data (ascii ''project_name'') (PyStr (ascii ''New Project'')))))
           (ascii ''New Project''),
       project_goal =
         str_or (strip (py_str (dict_get data (ascii ''project_goal'') (PyStr default_goal))))
           default_goal,
       target_users =
         str_or (strip (py_str (dict_get data (ascii ''target_users'') (PyStr default_users))))
           default_users,
       team_size = max (to_int (dict_get data (ascii ''team_size'') PyNone) 2) 1,
       module_count = max (to_int (dict_get data (ascii ''module_count'') PyNone) 3) 1,
       ui_priority = normalize_level (dict_get data (ascii ''ui_priority'') PyNone) (ascii ''medium''),
       backend_complexity =
         normalize_level (dict_get data (ascii ''backend_complexity'') PyNone) (ascii ''medium''),
       domain_complexity =
         normalize_level (dict_get data (ascii ''domain_complexity'') PyNone) (ascii ''low''),
       compliance_level =
         normalize_level (dict_get data (ascii ''compliance_level'') PyNone) (ascii ''low''),
       design_source = normalize_design (dict_get data (ascii ''design_source'') PyNone) (ascii ''none''),
       frontend_backend_separation =
         normalize_bool (dict_get data (ascii ''frontend_backend_separation'') PyNone) False,
       need_fast_validation =
         normalize_bool (dict_get data (ascii ''need_fast_validation'') PyNone) True,
       iteration_speed =
         normalize_speed (dict_get data (ascii ''iteration_speed'') PyNone) (ascii ''normal'') \<rparr>"

section \<open>Quality gate\<close>










section \<open>Combo scorer\<close>

text \<open>
  The score table is a dict from combo codes to integers: an association list. One
  statement \<open>if cond: score[key] += delta\<close> is one rule \<open>(cond, key, delta)\<close>, and
  \<open>score_rules\<close> lists the statements of \<open>score_combos\<close> in their order, over the
  local variables the function reads first; an unconditional statement has the
  condition \<open>True\<close>. \<open>score_combos\<close> reads the fields, where a failing table lookup
  (\<open>KeyError\<close>) gives \<open>None\<close>, starts from the baseline table and runs the statements.
\<close>

type_synonym score_table = "(pystr \<times> int) list"

type_synonym rule = "bool \<times> pystr \<times> int"

definition apply_rule :: "score_table \<Rightarrow> rule \<Rightarrow> score_table" where
  "apply_rule score r =
     (case r of (cond, key, delta) \<Rightarrow>
        if cond then AList.map_entry key (\<lambda>v. v + delta) score else score)"

definition baseline_scores :: score_table where
  "baseline_scores = map (\<lambda>k. (k, 2)) COMBO_VALUES"

definition score_rules ::
    "int \<Rightarrow> int \<Rightarrow> int \<Rightarrow> int \<Rightarrow> int \<Rightarrow> int \<Rightarrow> pystr \<Rightarrow> bool \<Rightarrow> bool \<Rightarrow> int \<Rightarrow> rule list" where
  "score_rules team modules ui backend domain compliance design separation fast speed =
     [(team \<le> 2, ascii ''c1'', 2),
      (modules \<le> 3, ascii ''c1'', 2),
      (fast, ascii ''c1'', 2),
      (design \<in> set [ascii ''none'', ascii ''wireframe''], ascii ''c1'', 1),
      (True, ascii ''c1'', max 0 (1 - domain)),
      (compliance \<ge> 1, ascii ''c1'', - 1),

      (2 \<le> team \<and> team \<le> 5, ascii ''c2'', 2),
      (3 \<le> modules \<and> modules \<le> 8, ascii ''c2'', 2),
      (speed \<ge> 1, ascii ''c2'', 2),
      (domain \<ge> 1, ascii ''c2'', 1),
      (fast, ascii ''c2'', 1),

      (separation, ascii ''c3'', 3),
      (backend \<ge> 1, ascii ''c3'', 2),
      (modules \<ge> 4, ascii ''c3'', 2),
      (compliance \<ge> 1, ascii ''c3'', 1),

      (design = ascii ''figma'', ascii ''c4'', 4),
      (ui = 2, ascii ''c4'', 3),
      (fast, ascii ''c4'', 1),
      (domain = 2, ascii ''c4'', - 1),

      (fast, ascii ''c5'', 3),
      (team \<le> 3, ascii ''c5'', 2),
      (speed = 2, ascii ''c5'', 2),
      (modules \<le> 5, ascii ''c5'', 1),
      (domain = 2, ascii ''c5'', - 1),

      (domain = 2, ascii ''c6'', 4),
      (compliance \<ge> 1, ascii ''c6'', 2),
      (team \<ge> 5, ascii ''c6'', 2),
      (modules \<ge> 6, ascii ''c6'', 2),
      (fast, ascii ''c6'', - 1)]"

definition score_combos :: "requirement \<Rightarrow> score_table option" where
  "score_combos req = do {
     let team = team_size req;
     let modules = module_count req;
     ui \<leftarrow> LEVEL_MAP (ui_priority req);
     backend \<leftarrow> LEVEL_MAP (backend_complexity req);
     domain \<leftarrow> LEVEL_MAP (domain_complexity req);
     compliance \<leftarrow> LEVEL_MAP (compliance_level req);
     let design = design_source req;
     let separation = frontend_backend_separation req;
     let fast = need_fast_validation req;
     speed \<leftarrow> SPEED_MAP (iteration_speed req);
     let score = baseline_scores;
     Some (foldl apply_rule score
       (score_rules team modules ui backend domain compliance design separation fast speed))
   }"

section \<open>Selection resolver\<close>

text \<open>
  \<open>sorted(scores.items(), key=lambda item: (-item[1], item[0]))\<close> is a stable sort on
  the pairs of negated score and code, ordered lexicographically. Indexing the empty
  list raises \<open>IndexError\<close>: the result \<open>None\<close>.
\<close>

definition rank_key :: "pystr \<times> int \<Rightarrow> int \<times> pystr" where
  "rank_key item = (- snd item, fst item)"

definition select_combo :: "score_table \<Rightarrow> pystr \<Rightarrow> (pystr \<times> pystr option) option" where
  "select_combo scores forced_combo =
     (let ordered = sort_key rank_key scores in
      if forced_combo \<in> set COMBO_VALUES then
        (let secondary =
           (if ordered \<noteq> [] \<and> fst (ordered ! 0) \<noteq> forced_combo then Some (fst (ordered ! 0))
            else if length ordered > 1 then Some (fst (ordered ! 1)) else None)
         in Some (forced_combo, secondary))
      else if ordered = [] then None
      else
        (let primary = fst (ordered ! 0);
             secondary = None;
             secondary =
               (if length ordered > 1 \<and> snd (ordered ! 0) - snd (ordered ! 1) \<le> 2
                then Some (fst (ordered ! 1)) else secondary)
         in Some (primary, secondary)))"

section \<open>Document planner\<close>

type_synonym doc = "pystr \<times> pystr"

definition BASELINE_DOCS :: "doc list" where
  "BASELINE_DOCS =
     [(ascii ''00-epic-map.md'', ascii ''Epic Map''),
      (ascii ''01-feature-story-map.md'', ascii ''Feature Story Map''),
      (ascii ''02-core-spec.md'', ascii ''Core Spec'')]"

definition BASE_DOCS :: "doc list" where
  "BASE_DOCS =
     [(ascii ''03-combo-decision.md'', [0x7EC4, 0x5408, 0x51B3, 0x7B56, 0x8BB0, 0x5F55]),
      (ascii ''04-milestone-plan.md'', [0x91CC, 0x7A0B, 0x7891, 0x8BA1, 0x5212]),
      (ascii ''05-ai-prompt-pack.md'', ascii ''AI '' @ [0x6267, 0x884C] @ ascii '' Prompt '' @ [0x5305])]"

definition COMBO_MIN_DOCS :: "pystr \<rightharpoonup> doc list" where
  "COMBO_MIN_DOCS =
     map_of
       [(ascii ''c1'',
          [(ascii ''30-requirement-canvas.md'', [0x9700, 0x6C42, 0x753B, 0x5E03]),
           (ascii ''31-prototype-brief.md'', [0x539F, 0x578B, 0x8BF4, 0x660E])]),
        (ascii ''c2'',
          [(ascii ''30-iteration-slice.md'', [0x8FED, 0x4EE3, 0x5207, 0x7247, 0x8BA1, 0x5212]),
           (ascii ''31-iteration-backlog.md'', [0x8FED, 0x4EE3, 0x4EFB, 0x52A1, 0x6E05, 0x5355])]),
        (ascii ''c3'',
          [(ascii ''30-scenario-list.md'', [0x573A, 0x666F, 0x6E05, 0x5355]),
           (ascii ''31-api-contract-priority.md'', [0x63A5, 0x53E3, 0x5951, 0x7EA6, 0x4F18, 0x5148, 0x7EA7]),
           (ascii ''32-data-model.md'', [0x6570, 0x636E, 0x6A21, 0x578B])]),
        (ascii ''c4'',
          [(ascii ''30-ui-flow-map.md'',
             ascii ''UI '' @ [0x6D41, 0x7A0B, 0x4E0E, 0x8BBE, 0x8BA1, 0x7EA6, 0x675F]),
           (ascii ''31-figma-to-prompt-map.md'',
             ascii ''Figma '' @ [0x5230] @ ascii '' Prompt '' @ [0x6620, 0x5C04])]),
        (ascii ''c5'',
          [(ascii ''30-mvp-hypothesis.md'', ascii ''MVP '' @ [0x5047, 0x8BBE]),
           (ascii ''31-feedback-loop.md'', [0x53CD, 0x9988, 0x95ED, 0x73AF])]),
        (ascii ''c6'',
          [(ascii ''30-domain-map.md'', [0x9886, 0x57DF, 0x62C6, 0x5206]),
           (ascii ''31-ubiquitous-language.md'', [0x7EDF, 0x4E00, 0x8BED, 0x8A00]),
           (ascii ''32-service-boundary.md'', [0x5E94, 0x7528, 0x670D, 0x52A1, 0x8FB9, 0x754C])])]"

definition STANDARD_DOCS :: "doc list" where
  "STANDARD_DOCS =
     [(ascii ''10-prd-lite.md'', ascii ''PRD Lite''),
      (ascii ''11-architecture-lite.md'', ascii ''Architecture Lite''),
      (ascii ''12-api-spec.md'', ascii ''API Spec''),
      (ascii ''13-database-design.md'', ascii ''Database Design''),
      (ascii ''14-risk-checklist.md'', [0x98CE, 0x9669, 0x4E0E, 0x56DE, 0x5F52, 0x6E05, 0x5355])]"

definition FULL_DOCS :: "doc list" where
  "FULL_DOCS =
     [(ascii ''20-module-spec-index.md'', [0x6A21, 0x5757] @ ascii '' Spec '' @ [0x7D22, 0x5F15]),
      (ascii ''21-test-regression-plan.md'', [0x6D4B, 0x8BD5, 0x4E0E, 0x56DE, 0x5F52, 0x8BA1, 0x5212]),
      (ascii ''22-ops-runbook.md'', [0x8FD0, 0x7EF4] @ ascii '' Runbook''),
      (ascii ''23-change-log-governance.md'', [0x53D8, 0x66F4, 0x6CBB, 0x7406])]"

definition SINGLE_FILE_DOC :: doc where
  "SINGLE_FILE_DOC =
     (ascii ''00-single-file-pack.md'', [0x5355, 0x6587, 0x4EF6, 0x9879, 0x76EE, 0x6587, 0x6863, 0x5305])"

text \<open>\<open>planned_docs\<close>; \<open>COMBO_MIN_DOCS[primary_combo]\<close> of an unknown code is \<open>KeyError\<close>.\<close>

definition planned_docs :: "pystr \<Rightarrow> pystr \<Rightarrow> doc list option" where
  "planned_docs primary_combo mode =
     (if mode = ascii ''single-file'' then Some [SINGLE_FILE_DOC]
      else do {
        let docs = BASELINE_DOCS;
        let docs = docs @ BASE_DOCS;
        min_docs \<leftarrow> COMBO_MIN_DOCS primary_combo;
        let docs = docs @ min_docs;
        let docs = (if mode \<in> set [ascii ''standard'', ascii ''full'']
                    then docs @ STANDARD_DOCS else docs);
        let docs = (if mode = ascii ''full'' then docs @ FULL_DOCS else docs);
        Some docs
      })"

section \<open>The decision pipeline of main\<close>

text \<open>
  The decisions \<open>main\<close> takes between loading the requirement and planning the
  documents: scores, selection, complexity and mode, each from the results before it.
  The arguments are the lower-cased \<open>--combo\<close> and \<open>--mode\<close> options, \<open>auto\<close> when no
  override is forced.
\<close>

definition main_selection ::
    "requirement \<Rightarrow> pystr \<Rightarrow> pystr \<Rightarrow> (pystr \<times> pystr option \<times> pystr \<times> pystr) option" where
  "main_selection req combo_arg mode_arg = do {
     scores \<leftarrow> score_combos req;
     (primary_code, secondary_code) \<leftarrow> select_combo scores combo_arg;
     complexity \<leftarrow> complexity_level req;
     mode \<leftarrow> recommend_mode req complexity mode_arg;
     Some (primary_code, secondary_code, complexity, mode)
   }"

section \<open>Notions of the specification\<close>

text \<open>
  The invariant of a normalized Requirement: every text field is non-empty, the two
  counts are at least 1, and every enumerated field is within its domain.
\<close>

definition normalized :: "requirement \<Rightarrow> bool" where
  "normalized req \<longleftrightarrow>
     project_name req \<noteq> [] \<and> project_goal req \<noteq> [] \<and> target_users req \<noteq> [] \<and>
     1 \<le> team_size req \<and> 1 \<le> module_count req \<and>
     ui_priority req \<in> set [ascii ''low'', ascii ''medium'', ascii ''high''] \<and>
     backend_complexity req \<in> set [ascii ''low'', ascii ''medium'', ascii ''high''] \<and>
     domain_complexity req \<in> set [ascii ''low'', ascii ''medium'', ascii ''high''] \<and>
     compliance_level req \<in> set [ascii ''low'', ascii ''medium'', ascii ''high''] \<and>
     design_source req \<in> set [ascii ''none'', ascii ''wireframe'', ascii ''figma''] \<and>
     iteration_speed req \<in> set [ascii ''slow'', ascii ''normal'', ascii ''fast'']"

text \<open>
  The classifier as the specification words it: two banded contributions, three ordinal
  values, one point for separation, and fixed inclusive thresholds. \<open>tier_rank\<close> is the
  position of a tier in the order S < M < L < XL.
\<close>

definition team_band :: "int \<Rightarrow> int" where
  "team_band t = (if t \<le> 2 then 0 else if t \<le> 5 then 1 else if t \<le> 8 then 2 else 3)"

definition module_band :: "int \<Rightarrow> int" where
  "module_band m = (if m \<le> 3 then 0 else if m \<le> 6 then 1 else if m \<le> 10 then 2 else 3)"

definition ordinal :: "pystr \<Rightarrow> int" where
  "ordinal l = (if l = ascii ''low'' then 0 else if l = ascii ''medium'' then 1 else 2)"

definition complexity_total :: "requirement \<Rightarrow> int" where
  "complexity_total req =
     team_band (team_size req) + module_band (module_count req) +
     ordinal (domain_complexity req) + ordinal (compliance_level req) +
     ordinal (backend_complexity req) + (if frontend_backend_separation req then 1 else 0)"

definition tier_of_total :: "int \<Rightarrow> pystr" where
  "tier_of_total n =
     (if n \<le> 4 then ascii ''S'' else if n \<le> 7 then ascii ''M''
      else if n \<le> 10 then ascii ''L'' else ascii ''XL'')"

definition tier_rank :: "pystr \<Rightarrow> nat" where
  "tier_rank t =
     (if t = ascii ''S'' then 0 else if t = ascii ''M'' then 1
      else if t = ascii ''L'' then 2 else 3)"


text \<open>
  The two scenarios of the specification, as the parsed JSON objects handed to
  \<open>load_requirements\<close>; all keys not listed are absent.
\<close>

definition scenario_one :: "pystr \<rightharpoonup> pyval" where
  "scenario_one =
     [ascii ''team_size'' \<mapsto> PyInt 2,
      ascii ''module_count'' \<mapsto> PyInt 2,
      ascii ''need_fast_validation'' \<mapsto> PyBool True,
      ascii ''design_source'' \<mapsto> PyStr (ascii ''none''),
      ascii ''domain_complexity'' \<mapsto> PyStr (ascii ''low''),
      ascii ''compliance_level'' \<mapsto> PyStr (ascii ''low'')]"

definition scenario_two :: "pystr \<rightharpoonup> pyval" where
  "scenario_two =
     [ascii ''team_size'' \<mapsto> PyInt 2,
      ascii ''module_count'' \<mapsto> PyInt 5,
      ascii ''need_fast_validation'' \<mapsto> PyBool True,
      ascii ''design_source'' \<mapsto> PyStr (ascii ''none''),
      ascii ''domain_complexity'' \<mapsto> PyStr (ascii ''low''),
      ascii ''compliance_level'' \<mapsto> PyStr (ascii ''low''),
      ascii ''frontend_backend_separation'' \<mapsto> PyBool True,
      ascii ''backend_complexity'' \<mapsto> PyStr (ascii ''high'')]"

text \<open>A tier rises when both classifications succeed and the second ranks higher.\<close>

definition tier_rises :: "pystr option \<Rightarrow> pystr option \<Rightarrow> bool" where
  "tier_rises before after =
     (case (before, after) of
        (Some a, Some b) \<Rightarrow> tier_rank a < tier_rank b
      | _ \<Rightarrow> False)"

text \<open>
  A Score Table has exactly the six combo codes as its keys, each once. The sorted order
  of the specification: descending score, ties broken by ascending code. A list is the
  ranking of a table when it holds the entries of the table, each entry before all
  entries it outranks.
\<close>

definition is_score_table :: "score_table \<Rightarrow> bool" where
  "is_score_table scores \<longleftrightarrow>
     distinct (map fst scores) \<and> set (map fst scores) = set COMBO_VALUES"

definition outranks :: "pystr \<times> int \<Rightarrow> pystr \<times> int \<Rightarrow> bool" where
  "outranks a b \<longleftrightarrow> snd a > snd b \<or> (snd a = snd b \<and> fst a < fst b)"

definition ranking :: "score_table \<Rightarrow> (pystr \<times> int) list \<Rightarrow> bool" where
  "ranking scores ordered \<longleftrightarrow> set ordered = set scores \<and> sorted_wrt outranks ordered"

text \<open>The score table of the second scenario.\<close>

definition scenario_two_scores :: score_table where
  "scenario_two_scores =
     [(ascii ''c1'', 8), (ascii ''c2'', 9), (ascii ''c3'', 9),
      (ascii ''c4'', 3), (ascii ''c5'', 8), (ascii ''c6'', 1)]"

text \<open>
  The sum of the deltas of the rules that fire for one combo code, and the rules of the
  scorer for a Requirement whose enumerated fields are read by their ordinal values.
\<close>

definition fired_delta :: "rule list \<Rightarrow> pystr \<Rightarrow> int" where
  "fired_delta rules key =
     sum_list (map (\<lambda>(cond, k, delta). if cond \<and> k = key then delta else 0) rules)"

definition speed_ordinal :: "pystr \<Rightarrow> int" where
  "speed_ordinal l = (if l = ascii ''slow'' then 0 else if l = ascii ''normal'' then 1 else 2)"

definition requirement_rules :: "requirement \<Rightarrow> rule list" where
  "requirement_rules req =
     score_rules (team_size req) (module_count req) (ordinal (ui_priority req))
       (ordinal (backend_complexity req)) (ordinal (domain_complexity req))
       (ordinal (compliance_level req)) (design_source req)
       (frontend_backend_separation req) (need_fast_validation req)
       (speed_ordinal (iteration_speed req))"




section \<open>Basic facts about strings and tables\<close>

lemma ascii_eq_iff [simp]: "ascii a = ascii b \<longleftrightarrow> a = b"
proof -
  have "inj (of_char :: char \<Rightarrow> nat)"
    by (rule inj_on_inverseI [where g = char_of]) simp
  then show ?thesis
    unfolding ascii_def by (simp add: inj_map_eq_map)
qed

lemma ascii_Nil [simp]: "ascii [] = []" "ascii s = [] \<longleftrightarrow> s = []" "[] = ascii s \<longleftrightarrow> s = []"
  by (auto simp: ascii_def)

lemma length_ascii [simp]: "length (ascii s) = length s"
  by (simp add: ascii_def)

lemma LEVEL_MAP_simps [simp]:
  "LEVEL_MAP (ascii ''low'') = Some 0"
  "LEVEL_MAP (ascii ''medium'') = Some 1"
  "LEVEL_MAP (ascii ''high'') = Some 2"
  by (simp_all add: LEVEL_MAP_def)

lemma SPEED_MAP_simps [simp]:
  "SPEED_MAP (ascii ''slow'') = Some 0"
  "SPEED_MAP (ascii ''normal'') = Some 1"
  "SPEED_MAP (ascii ''fast'') = Some 2"
  by (simp_all add: SPEED_MAP_def)

lemma LEVEL_MAP_ordinal:
  "l \<in> set [ascii ''low'', ascii ''medium'', ascii ''high''] \<Longrightarrow> LEVEL_MAP l = Some (ordinal l)"
  by (auto simp: ordinal_def)

lemma complexity_level_total:
  assumes "normalized req"
  shows "complexity_level req = Some (tier_of_total (complexity_total req))"
proof -
  from assms have
    d: "LEVEL_MAP (domain_complexity req) = Some (ordinal (domain_complexity req))" and
    c: "LEVEL_MAP (compliance_level req) = Some (ordinal (compliance_level req))" and
    b: "LEVEL_MAP (backend_complexity req) = Some (ordinal (backend_complexity req))"
    unfolding normalized_def by (blast intro: LEVEL_MAP_ordinal)+
  show ?thesis
    unfolding complexity_level_def d c b
    by (simp add: Let_def complexity_total_def team_band_def module_band_def tier_of_total_def)
qed

lemma tier_rank_mono: "a \<le> b \<Longrightarrow> tier_rank (tier_of_total a) \<le> tier_rank (tier_of_total b)"
  by (simp add: tier_rank_def tier_of_total_def)

section \<open>The normalizer establishes the invariant\<close>

text \<open>
  Whatever the parsed JSON object holds, \<open>load_requirements\<close> returns a normalized
  Requirement: the hypothesis \<open>normalized\<close> of the theorems below is what the scorer,
  the classifier and the resolvers receive.
\<close>

lemma normalize_level_domain:
  assumes "LEVEL_MAP dflt \<noteq> None"
  shows "normalize_level v dflt \<in> set [ascii ''low'', ascii ''medium'', ascii ''high'']"
proof -
  have "LEVEL_MAP l \<noteq> None \<Longrightarrow> l \<in> set [ascii ''low'', ascii ''medium'', ascii ''high'']" for l
    by (auto simp: LEVEL_MAP_def split: if_splits)
  with assms show ?thesis
    by (simp only: normalize_level_def Let_def split: if_splits) blast
qed

lemma normalize_speed_domain:
  assumes "SPEED_MAP dflt \<noteq> None"
  shows "normalize_speed v dflt \<in> set [ascii ''slow'', ascii ''normal'', ascii ''fast'']"
proof -
  have "SPEED_MAP l \<noteq> None \<Longrightarrow> l \<in> set [ascii ''slow'', ascii ''normal'', ascii ''fast'']" for l
    by (auto simp: SPEED_MAP_def split: if_splits)
  with assms show ?thesis
    by (simp only: normalize_speed_def Let_def split: if_splits) blast
qed

lemma normalize_design_domain:
  "normalize_design v (ascii ''none'') \<in> set [ascii ''none'', ascii ''wireframe'', ascii ''figma'']"
  by (auto simp: normalize_design_def Let_def DESIGN_VALUES_def)

lemma str_or_nonempty: "y \<noteq> [] \<Longrightarrow> str_or x y \<noteq> []"
  by (simp add: str_or_def)

lemma load_requirements_normalized: "normalized (load_requirements data)"
proof -
  have "normalize_level v (ascii ''medium'') \<in> set [ascii ''low'', ascii ''medium'', ascii ''high'']"
    and "normalize_level v (ascii ''low'') \<in> set [ascii ''low'', ascii ''medium'', ascii ''high'']"
    and "normalize_speed v (ascii ''normal'') \<in> set [ascii ''slow'', ascii ''normal'', ascii ''fast'']"
    for v
    by (simp_all add: normalize_level_domain normalize_speed_domain del: set_simps)
  then show ?thesis
    unfolding normalized_def load_requirements_def
    by (simp add: str_or_nonempty normalize_design_domain default_goal_def default_users_def
        del: set_simps)
qed

section \<open>The two scenarios, evaluated\<close>

lemmas str_eval = strip_def py_isspace_def lower_def lower_cp_def ascii_def

lemmas norm_eval = dict_get_def normalize_level_def normalize_speed_def normalize_design_def
  normalize_bool_def to_int_def str_or_def DESIGN_VALUES_def LEVEL_MAP_def SPEED_MAP_def

lemma load_scenario_two:
  "load_requirements scenario_two =
     \<lparr> project_name = ascii ''New Project'', project_goal = default_goal,
       target_users = default_users, team_size = 2, module_count = 5,
       ui_priority = ascii ''medium'', backend_complexity = ascii ''high'',
       domain_complexity = ascii ''low'', compliance_level = ascii ''low'',
       design_source = ascii ''none'', frontend_backend_separation = True,
       need_fast_validation = True, iteration_speed = ascii ''normal'' \<rparr>"
  by (simp add: load_requirements_def scenario_two_def norm_eval str_eval default_goal_def default_users_def)

lemma load_scenario_one:
  "load_requirements scenario_one =
     \<lparr> project_name = ascii ''New Project'', project_goal = default_goal,
       target_users = default_users, team_size = 2, module_count = 2,
       ui_priority = ascii ''medium'', backend_complexity = ascii ''medium'',
       domain_complexity = ascii ''low'', compliance_level = ascii ''low'',
       design_source = ascii ''none'', frontend_backend_separation = False,
       need_fast_validation = True, iteration_speed = ascii ''normal'' \<rparr>"
  by (simp add: load_requirements_def scenario_one_def norm_eval str_eval default_goal_def default_users_def)

lemma normalized_scenario_two: "normalized (load_requirements scenario_two)"
  by (rule load_requirements_normalized)

lemma complexity_total_scenario_two: "complexity_total (load_requirements scenario_two) = 4"
  by (simp add: load_scenario_two complexity_total_def team_band_def module_band_def ordinal_def)

lemma apply_rule_Nil: "apply_rule [] r = []"
  by (simp add: apply_rule_def split: prod.splits)

lemma apply_rule_Cons:
  "apply_rule ((k', v) # s) (c, k, d) =
     (if k' = k then (k', v + (if c then d else 0)) # s else (k', v) # apply_rule s (c, k, d))"
  by (simp add: apply_rule_def)

lemma score_combos_scenario_two:
  "score_combos (load_requirements scenario_two) =
     Some [(ascii ''c1'', 8), (ascii ''c2'', 9), (ascii ''c3'', 9),
           (ascii ''c4'', 3), (ascii ''c5'', 8), (ascii ''c6'', 1)]"
proof -
  have "score_combos (load_requirements scenario_two) =
      Some (foldl apply_rule baseline_scores
        (score_rules 2 5 1 2 0 0 (ascii ''none'') True True 1))"
    by (simp add: load_scenario_two score_combos_def)
  moreover have "score_rules 2 5 1 2 0 0 (ascii ''none'') True True 1 =
     [(True, ascii ''c1'', 2), (False, ascii ''c1'', 2), (True, ascii ''c1'', 2),
      (True, ascii ''c1'', 1), (True, ascii ''c1'', 1), (False, ascii ''c1'', - 1),
      (True, ascii ''c2'', 2), (True, ascii ''c2'', 2), (True, ascii ''c2'', 2),
      (False, ascii ''c2'', 1), (True, ascii ''c2'', 1),
      (True, ascii ''c3'', 3), (True, ascii ''c3'', 2), (True, ascii ''c3'', 2),
      (False, ascii ''c3'', 1),
      (False, ascii ''c4'', 4), (False, ascii ''c4'', 3), (True, ascii ''c4'', 1),
      (False, ascii ''c4'', - 1),
      (True, ascii ''c5'', 3), (True, ascii ''c5'', 2), (False, ascii ''c5'', 2),
      (True, ascii ''c5'', 1), (False, ascii ''c5'', - 1),
      (False, ascii ''c6'', 4), (False, ascii ''c6'', 2), (False, ascii ''c6'', 2),
      (False, ascii ''c6'', 2), (True, ascii ''c6'', - 1)]"
    by (simp add: score_rules_def)
  ultimately show ?thesis
    by (simp add: baseline_scores_def COMBO_VALUES_def apply_rule_Cons apply_rule_Nil)
qed

lemma select_combo_scenario_two:
  "select_combo [(ascii ''c1'', 8), (ascii ''c2'', 9), (ascii ''c3'', 9),
           (ascii ''c4'', 3), (ascii ''c5'', 8), (ascii ''c6'', 1)] (ascii ''auto'')
    = Some (ascii ''c2'', Some (ascii ''c3''))"
  by (simp add: select_combo_def rank_key_def COMBO_VALUES_def ascii_def)

lemma complexity_level_scenario_two:
  "complexity_level (load_requirements scenario_two) = Some (ascii ''S'')"
  by (simp add: load_scenario_two complexity_level_def)

lemma complexity_level_scenario_one:
  "complexity_level (load_requirements scenario_one) = Some (ascii ''S'')"
  by (simp add: load_scenario_one complexity_level_def)

lemma main_selection_scenario_two:
  "main_selection (load_requirements scenario_two) (ascii ''auto'') (ascii ''auto'') =
     Some (ascii ''c2'', Some (ascii ''c3''), ascii ''S'', ascii ''minimal'')"
proof -
  have "recommend_mode (load_requirements scenario_two) (ascii ''S'') (ascii ''auto'') =
      Some (ascii ''minimal'')"
    by (simp add: load_scenario_two recommend_mode_def MODE_VALUES_def)
  then show ?thesis
    by (simp add: main_selection_def score_combos_scenario_two select_combo_scenario_two
        complexity_level_scenario_two)
qed

section \<open>The scenario with separation, high backend complexity and five modules\<close>

text \<open>
  Claim C1, as stated: for the Requirement normalized from the first scenario with
  \<open>frontend_backend_separation = true\<close>, \<open>backend_complexity = "high"\<close> and
  \<open>module_count = 5\<close>, and no forced overrides, the primary combo is c3 and the tier is at
  least one band above the tier of the unchanged first scenario. The statement fails on
  the code: the primary combo is not c3, and the tier does not rise.
\<close>

theorem scenario_two_counterexample:
  "\<not> (map_option fst (main_selection (load_requirements scenario_two) (ascii ''auto'') (ascii ''auto''))
        = Some (ascii ''c3'') \<and>
      tier_rises (complexity_level (load_requirements scenario_one))
        (complexity_level (load_requirements scenario_two)))"
  by (simp add: main_selection_scenario_two)

text \<open>
  Claim C1, amended: on that Requirement the scorer gives c2 and c3 the same top score 9
  (c1 and c5 have 8, c4 has 3, c6 has 1), so the tie-break by ascending code makes c2 the
  primary combo and c3 the secondary one; the complexity total is 4, so the tier is S,
  the same tier as for the unchanged first scenario, and the automatic mode is
  \<open>minimal\<close>.
\<close>

theorem scenario_two_selection:
  "score_combos (load_requirements scenario_two) =
     Some [(ascii ''c1'', 8), (ascii ''c2'', 9), (ascii ''c3'', 9),
           (ascii ''c4'', 3), (ascii ''c5'', 8), (ascii ''c6'', 1)] \<and>
   main_selection (load_requirements scenario_two) (ascii ''auto'') (ascii ''auto'') =
     Some (ascii ''c2'', Some (ascii ''c3''), ascii ''S'', ascii ''minimal'') \<and>
   complexity_level (load_requirements scenario_one) = Some (ascii ''S'') \<and>
   complexity_level (load_requirements scenario_two) = Some (ascii ''S'')"
  by (simp add: score_combos_scenario_two main_selection_scenario_two
      complexity_level_scenario_one complexity_level_scenario_two)

section \<open>Properties of the mode resolver\<close>

text \<open>
  Claim C3: for every normalized Requirement, every tier and every forced-mode value,
  the Mode Resolver returns the forced mode if it is one of minimal, standard, full and
  single-file; otherwise \<open>minimal\<close> if the tier is S and \<open>need_fast_validation\<close> holds;
  otherwise \<open>full\<close> if the tier is XL or \<open>compliance_level\<close> is high; otherwise
  \<open>standard\<close>. The branches are tried in this order and exactly one gives the result, so
  tier XL with \<open>need_fast_validation\<close> gives \<open>full\<close>.
\<close>

theorem recommend_mode_priority:
  assumes "normalized req"
  shows "recommend_mode req tier forced_mode =
     Some (if forced_mode \<in> set MODE_VALUES then forced_mode
           else if tier = ascii ''S'' \<and> need_fast_validation req then ascii ''minimal''
           else if tier = ascii ''XL'' \<or> compliance_level req = ascii ''high'' then ascii ''full''
           else ascii ''standard'')"
proof -
  from assms have "LEVEL_MAP (compliance_level req) = Some (ordinal (compliance_level req))"
    unfolding normalized_def by (blast intro: LEVEL_MAP_ordinal)
  moreover from assms have "ordinal (compliance_level req) = 2 \<longleftrightarrow> compliance_level req = ascii ''high''"
    unfolding normalized_def by (auto simp: ordinal_def)
  ultimately show ?thesis
    by (simp add: recommend_mode_def)
qed

theorem recommend_mode_priority_witness:
  "normalized (load_requirements scenario_two) \<and>
   need_fast_validation (load_requirements scenario_two) \<and>
   recommend_mode (load_requirements scenario_two) (ascii ''XL'') (ascii ''auto'') = Some (ascii ''full'') \<and>
   recommend_mode (load_requirements scenario_two) (ascii ''S'') (ascii ''auto'') = Some (ascii ''minimal'') \<and>
   recommend_mode (load_requirements scenario_two) (ascii ''M'') (ascii ''auto'') = Some (ascii ''standard'') \<and>
   recommend_mode (load_requirements scenario_two) (ascii ''S'') (ascii ''single-file'') = Some (ascii ''single-file'')"
proof -
  note n = normalized_scenario_two
  have f: "need_fast_validation (load_requirements scenario_two)"
    and c: "compliance_level (load_requirements scenario_two) = ascii ''low''"
    by (simp_all add: load_scenario_two)
  have "recommend_mode (load_requirements scenario_two) (ascii ''XL'') (ascii ''auto'') = Some (ascii ''full'')"
    and "recommend_mode (load_requirements scenario_two) (ascii ''S'') (ascii ''auto'') = Some (ascii ''minimal'')"
    and "recommend_mode (load_requirements scenario_two) (ascii ''M'') (ascii ''auto'') = Some (ascii ''standard'')"
    and "recommend_mode (load_requirements scenario_two) (ascii ''S'') (ascii ''single-file'') = Some (ascii ''single-file'')"
    unfolding recommend_mode_priority [OF n] by (simp_all add: f c MODE_VALUES_def)
  with n f show ?thesis by simp
qed

section \<open>Properties of the complexity classifier\<close>

text \<open>
  Claim C5: for every normalized Requirement the classifier returns the tier of the
  total made of the \<open>team_size\<close> band (0 up to 2, 1 up to 5, 2 up to 8, else 3), the
  \<open>module_count\<close> band (0 up to 3, 1 up to 6, 2 up to 10, else 3), the ordinal values of
  \<open>domain_complexity\<close>, \<open>compliance_level\<close> and \<open>backend_complexity\<close>, and 1 for
  \<open>frontend_backend_separation\<close>; the tier is S up to 4, M up to 7, L up to 10 and XL
  above, so the boundary totals 4, 7 and 10 fall into the lower tier.
\<close>

theorem complexity_level_bands:
  assumes "normalized req"
  shows "complexity_level req = Some (tier_of_total (complexity_total req)) \<and>
         (complexity_total req = 4 \<longrightarrow> complexity_level req = Some (ascii ''S'')) \<and>
         (complexity_total req = 7 \<longrightarrow> complexity_level req = Some (ascii ''M'')) \<and>
         (complexity_total req = 10 \<longrightarrow> complexity_level req = Some (ascii ''L''))"
  using complexity_level_total [OF assms] by (simp add: tier_of_total_def)

theorem complexity_level_bands_witness:
  "normalized (load_requirements scenario_two) \<and>
   complexity_total (load_requirements scenario_two) = 4 \<and>
   complexity_level (load_requirements scenario_two) = Some (ascii ''S'')"
  using complexity_level_bands [OF normalized_scenario_two]
  by (simp add: normalized_scenario_two complexity_total_scenario_two tier_of_total_def)

text \<open>
  Claim C6: of two normalized Requirements that agree in every field except
  \<open>compliance_level\<close>, which is low in one and high in the other, the one with high
  compliance gets a tier at least as high in the order S < M < L < XL.
\<close>

theorem compliance_monotone:
  assumes "normalized lo" and "compliance_level lo = ascii ''low''"
    and "hi = lo\<lparr>compliance_level := ascii ''high''\<rparr>"
  shows "\<exists>a b. complexity_level lo = Some a \<and> complexity_level hi = Some b \<and>
           tier_rank a \<le> tier_rank b"
proof -
  from assms have nhi: "normalized hi"
    by (simp add: normalized_def)
  have "complexity_total lo \<le> complexity_total hi"
    using assms by (simp add: complexity_total_def ordinal_def)
  then have "tier_rank (tier_of_total (complexity_total lo)) \<le> tier_rank (tier_of_total (complexity_total hi))"
    by (rule tier_rank_mono)
  with complexity_level_total [OF assms(1)] complexity_level_total [OF nhi]
  show ?thesis by simp
qed

theorem compliance_monotone_witness:
  "normalized (load_requirements scenario_two) \<and>
   compliance_level (load_requirements scenario_two) = ascii ''low'' \<and>
   (\<exists>a b. complexity_level (load_requirements scenario_two) = Some a \<and>
      complexity_level ((load_requirements scenario_two)\<lparr>compliance_level := ascii ''high''\<rparr>) = Some b \<and>
      tier_rank a \<le> tier_rank b)"
proof -
  have c: "compliance_level (load_requirements scenario_two) = ascii ''low''"
    by (simp add: load_scenario_two)
  from compliance_monotone [OF normalized_scenario_two c refl] normalized_scenario_two c
  show ?thesis by blast
qed

section \<open>Properties of the selection resolver\<close>

lemma rank_key_less: "rank_key a < rank_key b \<longleftrightarrow> outranks a b"
  by (cases a, cases b) (auto simp: rank_key_def outranks_def)

lemma rank_key_le: "rank_key (p, v) \<le> rank_key (k, w) \<longleftrightarrow> w < v \<or> (w = v \<and> p \<le> k)"
  by (auto simp: rank_key_def)

lemma inj_rank_key: "inj rank_key"
  by (rule injI) (auto simp: rank_key_def prod_eq_iff)

lemma distinct_rank_key: "distinct (map rank_key xs) \<longleftrightarrow> distinct xs"
  by (simp add: distinct_map inj_on_subset [OF inj_rank_key])

lemma ranking_unique:
  assumes "distinct (map fst scores)" and "ranking scores ordered"
  shows "ordered = sort_key rank_key scores"
proof -
  from assms(2) have "sorted_wrt (<) (map rank_key ordered)"
    by (simp add: ranking_def sorted_wrt_map rank_key_less)
  then have "sorted (map rank_key ordered)" and "distinct (map rank_key ordered)"
    by (simp_all add: strict_sorted_iff)
  moreover have "sorted (map rank_key (sort_key rank_key scores))"
    by (rule sorted_sort_key)
  moreover from assms(1) have "distinct scores"
    by (simp add: distinct_map)
  then have "distinct (map rank_key (sort_key rank_key scores))"
    by (simp add: distinct_rank_key)
  moreover have "set (map rank_key ordered) = set (map rank_key (sort_key rank_key scores))"
    using assms(2) by (simp add: ranking_def)
  ultimately have "map rank_key ordered = map rank_key (sort_key rank_key scores)"
    by (simp add: sorted_distinct_set_unique)
  then show ?thesis
    by (simp add: inj_map_eq_map [OF inj_rank_key])
qed

lemma ranking_sort_key:
  assumes "distinct (map fst scores)"
  shows "ranking scores (sort_key rank_key scores)"
proof -
  have "sorted (map rank_key (sort_key rank_key scores))"
    by (rule sorted_sort_key)
  moreover from assms have "distinct scores"
    by (simp add: distinct_map)
  then have "distinct (map rank_key (sort_key rank_key scores))"
    by (simp add: distinct_rank_key)
  ultimately have "sorted_wrt (<) (map rank_key (sort_key rank_key scores))"
    by (simp add: strict_sorted_iff)
  then show ?thesis
    by (simp add: ranking_def sorted_wrt_map rank_key_less)
qed

lemma score_table_length:
  assumes "is_score_table scores"
  shows "length scores = 6"
proof -
  from assms have "length (map fst scores) = card (set COMBO_VALUES)"
    by (metis is_score_table_def distinct_card)
  also have "card (set COMBO_VALUES) = 6"
    by (simp add: COMBO_VALUES_def)
  finally show ?thesis by simp
qed

lemma sort_key_head_least:
  assumes "sort_key rank_key scores = x # xs" and "y \<in> set scores"
  shows "rank_key x \<le> rank_key y"
proof -
  have "sorted (map rank_key (sort_key rank_key scores))"
    by (rule sorted_sort_key)
  with assms(1) have "\<forall>z\<in>set xs. rank_key x \<le> rank_key z"
    by simp
  moreover from assms have "y = x \<or> y \<in> set xs"
    by (metis set_ConsD set_sort)
  ultimately show ?thesis by auto
qed

lemma score_table_scenario_two: "is_score_table scenario_two_scores"
  by (simp add: is_score_table_def scenario_two_scores_def COMBO_VALUES_def)

lemma ranking_scenario_two:
  "ranking scenario_two_scores
     [(ascii ''c2'', 9), (ascii ''c3'', 9), (ascii ''c1'', 8),
      (ascii ''c5'', 8), (ascii ''c4'', 3), (ascii ''c6'', 1)]"
  by (auto simp: ranking_def scenario_two_scores_def outranks_def ascii_def)

text \<open>
  Claim C2: for every Score Table and every forced combo code that is one of the six
  valid codes, the Selection Resolver returns the forced code as primary, whatever its
  score, and as secondary the first code of the ranking if that differs from the forced
  code, otherwise the second code of the ranking. The ranking of a Score Table exists, is
  unique and has six entries.
\<close>

theorem forced_combo_precedence:
  assumes "is_score_table scores" and "forced_combo \<in> set COMBO_VALUES"
  shows "\<exists>ordered.
           ranking scores ordered \<and> (\<forall>other. ranking scores other \<longrightarrow> other = ordered) \<and>
           length ordered = 6 \<and>
           select_combo scores forced_combo =
             Some (forced_combo,
                   Some (if fst (ordered ! 0) \<noteq> forced_combo then fst (ordered ! 0)
                         else fst (ordered ! 1)))"
proof -
  let ?ordered = "sort_key rank_key scores"
  from assms(1) have d: "distinct (map fst scores)"
    by (simp add: is_score_table_def)
  have "ranking scores ?ordered"
    using d by (rule ranking_sort_key)
  moreover have "\<forall>other. ranking scores other \<longrightarrow> other = ?ordered"
    using d by (blast intro: ranking_unique)
  moreover have len: "length ?ordered = 6"
    using assms(1) by (simp add: score_table_length)
  moreover from assms(1) have "scores \<noteq> []"
    by (auto dest: score_table_length)
  then have "?ordered \<noteq> []"
    by (metis set_sort set_empty)
  with len assms(2) have "select_combo scores forced_combo =
      Some (forced_combo,
            Some (if fst (?ordered ! 0) \<noteq> forced_combo then fst (?ordered ! 0)
                  else fst (?ordered ! 1)))"
    by (simp add: select_combo_def)
  ultimately show ?thesis by blast
qed

theorem forced_combo_precedence_witness:
  "is_score_table scenario_two_scores \<and> ascii ''c6'' \<in> set COMBO_VALUES \<and>
   select_combo scenario_two_scores (ascii ''c6'') = Some (ascii ''c6'', Some (ascii ''c2'')) \<and>
   ascii ''c2'' \<in> set COMBO_VALUES \<and>
   select_combo scenario_two_scores (ascii ''c2'') = Some (ascii ''c2'', Some (ascii ''c3''))"
proof -
  have c6: "ascii ''c6'' \<in> set COMBO_VALUES" and c2: "ascii ''c2'' \<in> set COMBO_VALUES"
    by (simp_all add: COMBO_VALUES_def)
  from forced_combo_precedence [OF score_table_scenario_two c6] ranking_scenario_two
  have "select_combo scenario_two_scores (ascii ''c6'') = Some (ascii ''c6'', Some (ascii ''c2''))"
    by auto
  moreover
  from forced_combo_precedence [OF score_table_scenario_two c2] ranking_scenario_two
  have "select_combo scenario_two_scores (ascii ''c2'') = Some (ascii ''c2'', Some (ascii ''c3''))"
    by auto
  ultimately show ?thesis
    using score_table_scenario_two c6 c2 by simp
qed

text \<open>
  Claim C4: for every Score Table, when no forced combo is supplied the Selection
  Resolver returns as primary the first code of the ranking: a code with the maximal
  score, and the lexicographically smallest of the codes with that score. In particular
  this is so when two or more combos share the maximal score.
\<close>

theorem tie_break_primary:
  assumes "is_score_table scores" and "forced_combo \<notin> set COMBO_VALUES"
  shows "\<exists>primary secondary v ordered.
           select_combo scores forced_combo = Some (primary, secondary) \<and>
           ranking scores ordered \<and> (primary, v) = ordered ! 0 \<and>
           (primary, v) \<in> set scores \<and>
           (\<forall>(k, w) \<in> set scores. w \<le> v \<and> (w = v \<longrightarrow> primary \<le> k))"
proof -
  let ?ordered = "sort_key rank_key scores"
  from assms(1) have d: "distinct (map fst scores)"
    by (simp add: is_score_table_def)
  from assms(1) have "length ?ordered = 6"
    by (simp add: score_table_length)
  then obtain p v rest where o: "?ordered = (p, v) # rest"
    by (cases ?ordered) auto
  have r: "ranking scores ?ordered"
    using d by (rule ranking_sort_key)
  have m: "(p, v) \<in> set scores"
    by (metis o list.set_intros(1) set_sort)
  have least: "\<forall>(k, w) \<in> set scores. w \<le> v \<and> (w = v \<longrightarrow> p \<le> k)"
  proof (clarify)
    fix k w assume "(k, w) \<in> set scores"
    with o have "rank_key (p, v) \<le> rank_key (k, w)"
      by (rule sort_key_head_least)
    then show "w \<le> v \<and> (w = v \<longrightarrow> p \<le> k)"
      by (auto simp: rank_key_le)
  qed
  from assms(2) o obtain secondary where
    s: "select_combo scores forced_combo = Some (p, secondary)"
    by (simp add: select_combo_def Let_def)
  from o have "(p, v) = ?ordered ! 0"
    by simp
  with s r m least show ?thesis
    by blast
qed

theorem tie_break_primary_witness:
  "is_score_table scenario_two_scores \<and> ascii ''auto'' \<notin> set COMBO_VALUES \<and>
   map_option fst (select_combo scenario_two_scores (ascii ''auto'')) = Some (ascii ''c2'')"
proof -
  have a: "ascii ''auto'' \<notin> set COMBO_VALUES"
    by (simp add: COMBO_VALUES_def)
  from tie_break_primary [OF score_table_scenario_two a]
  obtain primary secondary v where
    s: "select_combo scenario_two_scores (ascii ''auto'') = Some (primary, secondary)" and
    m: "(primary, v) \<in> set scenario_two_scores" and
    l: "\<forall>(k, w) \<in> set scenario_two_scores. w \<le> v \<and> (w = v \<longrightarrow> primary \<le> k)"
    by blast
  from l have "9 \<le> v \<and> (9 = v \<longrightarrow> primary \<le> ascii ''c2'')"
    by (simp add: scenario_two_scores_def)
  with m have "primary = ascii ''c2''"
    by (auto simp: scenario_two_scores_def ascii_def)
  with s a score_table_scenario_two show ?thesis
    by simp
qed

section \<open>Properties of the combo scorer\<close>

lemma SPEED_MAP_ordinal:
  "l \<in> set [ascii ''slow'', ascii ''normal'', ascii ''fast''] \<Longrightarrow>
     SPEED_MAP l = Some (speed_ordinal l)"
  by (auto simp: speed_ordinal_def)

lemma map_fst_apply_rule: "map fst (apply_rule score r) = map fst score"
proof -
  have "map fst (AList.map_entry k f xs) = map fst xs" for k and f :: "int \<Rightarrow> int" and xs :: score_table
    by (induction xs) auto
  then show ?thesis
    by (simp add: apply_rule_def split: prod.splits)
qed

lemma map_fst_foldl_apply_rule: "map fst (foldl apply_rule score rules) = map fst score"
  by (induction rules arbitrary: score) (simp_all add: map_fst_apply_rule)

lemma map_of_apply_rule:
  assumes "map_of score key = Some v"
  shows "map_of (apply_rule score (cond, k, delta)) key =
           Some (v + (if cond \<and> k = key then delta else 0))"
  using assms by (auto simp: apply_rule_def map_of_map_entry)

lemma map_of_foldl_apply_rule:
  assumes "map_of score key = Some v"
  shows "map_of (foldl apply_rule score rules) key = Some (v + fired_delta rules key)"
  using assms
proof (induction rules arbitrary: score v)
  case Nil
  then show ?case by (simp add: fired_delta_def)
next
  case (Cons r rules)
  obtain cond k delta where r: "r = (cond, k, delta)"
    by (cases r)
  from Cons.prems have
    "map_of (apply_rule score r) key = Some (v + (if cond \<and> k = key then delta else 0))"
    unfolding r by (rule map_of_apply_rule)
  then have "map_of (foldl apply_rule (apply_rule score r) rules) key =
      Some (v + (if cond \<and> k = key then delta else 0) + fired_delta rules key)"
    by (rule Cons.IH)
  then show ?case
    by (simp add: r fired_delta_def)
qed

lemma map_of_baseline_scores:
  "key \<in> set COMBO_VALUES \<Longrightarrow> map_of baseline_scores key = Some 2"
  by (auto simp: baseline_scores_def COMBO_VALUES_def)

lemma score_combos_normalized:
  assumes "normalized req"
  shows "score_combos req = Some (foldl apply_rule baseline_scores (requirement_rules req))"
proof -
  from assms have
    "LEVEL_MAP (ui_priority req) = Some (ordinal (ui_priority req))"
    "LEVEL_MAP (backend_complexity req) = Some (ordinal (backend_complexity req))"
    "LEVEL_MAP (domain_complexity req) = Some (ordinal (domain_complexity req))"
    "LEVEL_MAP (compliance_level req) = Some (ordinal (compliance_level req))"
    unfolding normalized_def by (blast intro: LEVEL_MAP_ordinal)+
  moreover from assms have
    "SPEED_MAP (iteration_speed req) = Some (speed_ordinal (iteration_speed req))"
    unfolding normalized_def by (blast intro: SPEED_MAP_ordinal)
  ultimately show ?thesis
    by (simp add: score_combos_def requirement_rules_def)
qed

lemma fired_delta_c1:
  "- 1 \<le> fired_delta (score_rules t m u b d c g s f v) (ascii ''c1'')"
  by (simp add: score_rules_def fired_delta_def max_def)

lemma fired_delta_c2: "0 \<le> fired_delta (score_rules t m u b d c g s f v) (ascii ''c2'')"
  by (simp add: score_rules_def fired_delta_def)

lemma fired_delta_c3: "0 \<le> fired_delta (score_rules t m u b d c g s f v) (ascii ''c3'')"
  by (simp add: score_rules_def fired_delta_def)

lemma fired_delta_c4: "- 1 \<le> fired_delta (score_rules t m u b d c g s f v) (ascii ''c4'')"
  by (simp add: score_rules_def fired_delta_def)

lemma fired_delta_c5: "- 1 \<le> fired_delta (score_rules t m u b d c g s f v) (ascii ''c5'')"
  by (simp add: score_rules_def fired_delta_def)

lemma fired_delta_c6: "- 1 \<le> fired_delta (score_rules t m u b d c g s f v) (ascii ''c6'')"
  by (simp add: score_rules_def fired_delta_def)

lemma fired_delta_lower:
  assumes "key \<in> set COMBO_VALUES"
  shows "- 1 \<le> fired_delta (score_rules t m u b d c g s f v) key"
proof -
  from assms consider "key = ascii ''c1''" | "key = ascii ''c2''" | "key = ascii ''c3''"
    | "key = ascii ''c4''" | "key = ascii ''c5''" | "key = ascii ''c6''"
    by (auto simp: COMBO_VALUES_def)
  then show ?thesis
  proof cases
    case 1
    with fired_delta_c1 [of t m u b d c g s f v] show ?thesis by simp
  next
    case 2
    with fired_delta_c2 [of t m u b d c g s f v] show ?thesis by simp
  next
    case 3
    with fired_delta_c3 [of t m u b d c g s f v] show ?thesis by simp
  next
    case 4
    with fired_delta_c4 [of t m u b d c g s f v] show ?thesis by simp
  next
    case 5
    with fired_delta_c5 [of t m u b d c g s f v] show ?thesis by simp
  next
    case 6
    with fired_delta_c6 [of t m u b d c g s f v] show ?thesis by simp
  qed
qed

lemma score_table_foldl_baseline: "is_score_table (foldl apply_rule baseline_scores rules)"
  by (simp add: is_score_table_def map_fst_foldl_apply_rule baseline_scores_def comp_def
      COMBO_VALUES_def)

text \<open>
  Claim C7: for every normalized Requirement the Combo Scorer returns a table whose keys
  are exactly the six combo codes c1 to c6; every combo starts from the baseline score
  2, so its score is 2 plus the deltas of its rules that fire; and every score is an
  integer not below 0, the subtractive rules for c1, c4, c5 and c6 notwithstanding.
\<close>

theorem score_combos_table:
  assumes "normalized req"
  shows "\<exists>scores.
           score_combos req = Some scores \<and> is_score_table scores \<and>
           scores = foldl apply_rule baseline_scores (requirement_rules req) \<and>
           (\<forall>key \<in> set COMBO_VALUES.
              map_of baseline_scores key = Some 2 \<and>
              map_of scores key = Some (2 + fired_delta (requirement_rules req) key)) \<and>
           (\<forall>(key, v) \<in> set scores. 0 \<le> v)"
proof -
  let ?scores = "foldl apply_rule baseline_scores (requirement_rules req)"
  have t: "is_score_table ?scores"
    by (rule score_table_foldl_baseline)
  have m: "map_of ?scores key = Some (2 + fired_delta (requirement_rules req) key)"
    if "key \<in> set COMBO_VALUES" for key
    using that by (intro map_of_foldl_apply_rule map_of_baseline_scores)
  have "0 \<le> v" if "(key, v) \<in> set ?scores" for key v
  proof -
    from t that have "map_of ?scores key = Some v"
      by (simp add: is_score_table_def)
    moreover from t that have k: "key \<in> set COMBO_VALUES"
      unfolding is_score_table_def by (metis fst_conv image_eqI list.set_map)
    ultimately have "v = 2 + fired_delta (requirement_rules req) key"
      using m by simp
    moreover have "- 1 \<le> fired_delta (requirement_rules req) key"
      unfolding requirement_rules_def using k by (rule fired_delta_lower)
    ultimately show ?thesis by simp
  qed
  with score_combos_normalized [OF assms] t m map_of_baseline_scores show ?thesis
    by blast
qed

theorem score_combos_table_witness:
  "normalized (load_requirements scenario_two) \<and>
   (\<exists>scores. score_combos (load_requirements scenario_two) = Some scores \<and>
      is_score_table scores \<and> map_of scores (ascii ''c6'') = Some 1 \<and>
      2 + fired_delta (requirement_rules (load_requirements scenario_two)) (ascii ''c6'') = 1)"
proof -
  from score_combos_table [OF normalized_scenario_two] obtain scores where
    s: "score_combos (load_requirements scenario_two) = Some scores" and
    t: "is_score_table scores" and
    m: "\<forall>key \<in> set COMBO_VALUES.
          map_of scores key =
            Some (2 + fired_delta (requirement_rules (load_requirements scenario_two)) key)"
    by blast
  from s have e: "scores = [(ascii ''c1'', 8), (ascii ''c2'', 9), (ascii ''c3'', 9),
           (ascii ''c4'', 3), (ascii ''c5'', 8), (ascii ''c6'', 1)]"
    by (simp add: score_combos_scenario_two)
  then have c: "map_of scores (ascii ''c6'') = Some 1"
    by simp
  have "ascii ''c6'' \<in> set COMBO_VALUES"
    by (simp add: COMBO_VALUES_def)
  with m c have "2 + fired_delta (requirement_rules (load_requirements scenario_two)) (ascii ''c6'') = 1"
    by simp
  with normalized_scenario_two s t c show ?thesis
    by blast
qed

section \<open>Properties of the document planner\<close>

lemma COMBO_MIN_DOCS_dom:
  assumes "primary_combo \<in> set COMBO_VALUES"
  shows "\<exists>min_docs. COMBO_MIN_DOCS primary_combo = Some min_docs \<and>
           (length min_docs = 2 \<or> length min_docs = 3)"
  using assms by (auto simp: COMBO_VALUES_def COMBO_MIN_DOCS_def)

text \<open>
  Claim C9: for every primary combo code and every mode, the Document Planner returns
  exactly the one fixed document when the mode is single-file; otherwise it returns, in
  this order, the 3 baseline documents, the 3 base documents (decision, milestones,
  prompts), the 2 or 3 minimum documents of the primary combo, the standard documents
  if and only if the mode is standard or full, and the full documents if and only if
  the mode is full.
\<close>

theorem planned_docs_layers:
  assumes "primary_combo \<in> set COMBO_VALUES"
  shows "\<exists>min_docs.
           COMBO_MIN_DOCS primary_combo = Some min_docs \<and>
           (length min_docs = 2 \<or> length min_docs = 3) \<and>
           length BASELINE_DOCS = 3 \<and> length BASE_DOCS = 3 \<and>
           planned_docs primary_combo mode =
             Some (if mode = ascii ''single-file'' then [SINGLE_FILE_DOC]
                   else BASELINE_DOCS @ BASE_DOCS @ min_docs @
                     (if mode = ascii ''standard'' \<or> mode = ascii ''full'' then STANDARD_DOCS else []) @
                     (if mode = ascii ''full'' then FULL_DOCS else []))"
proof -
  from COMBO_MIN_DOCS_dom [OF assms] obtain min_docs where
    m: "COMBO_MIN_DOCS primary_combo = Some min_docs" and
    l: "length min_docs = 2 \<or> length min_docs = 3"
    by blast
  have "planned_docs primary_combo mode =
      Some (if mode = ascii ''single-file'' then [SINGLE_FILE_DOC]
            else BASELINE_DOCS @ BASE_DOCS @ min_docs @
              (if mode = ascii ''standard'' \<or> mode = ascii ''full'' then STANDARD_DOCS else []) @
              (if mode = ascii ''full'' then FULL_DOCS else []))"
    by (simp add: planned_docs_def m)
  moreover have "length BASELINE_DOCS = 3" "length BASE_DOCS = 3"
    by (simp_all add: BASELINE_DOCS_def BASE_DOCS_def)
  ultimately show ?thesis
    using m l by blast
qed

theorem planned_docs_layers_witness:
  "ascii ''c3'' \<in> set COMBO_VALUES \<and>
   map_option (map fst) (planned_docs (ascii ''c3'') (ascii ''standard'')) =
     Some [ascii ''00-epic-map.md'', ascii ''01-feature-story-map.md'', ascii ''02-core-spec.md'',
           ascii ''03-combo-decision.md'', ascii ''04-milestone-plan.md'', ascii ''05-ai-prompt-pack.md'',
           ascii ''30-scenario-list.md'', ascii ''31-api-contract-priority.md'', ascii ''32-data-model.md'',
           ascii ''10-prd-lite.md'', ascii ''11-architecture-lite.md'', ascii ''12-api-spec.md'',
           ascii ''13-database-design.md'', ascii ''14-risk-checklist.md''] \<and>
   planned_docs (ascii ''c3'') (ascii ''single-file'') = Some [SINGLE_FILE_DOC]"
proof -
  have c: "ascii ''c3'' \<in> set COMBO_VALUES"
    by (simp add: COMBO_VALUES_def)
  have m: "COMBO_MIN_DOCS (ascii ''c3'') =
      Some [(ascii ''30-scenario-list.md'', [0x573A, 0x666F, 0x6E05, 0x5355]),
            (ascii ''31-api-contract-priority.md'', [0x63A5, 0x53E3, 0x5951, 0x7EA6, 0x4F18, 0x5148, 0x7EA7]),
            (ascii ''32-data-model.md'', [0x6570, 0x636E, 0x6A21, 0x578B])]"
    by (simp add: COMBO_MIN_DOCS_def)
  from planned_docs_layers [OF c, of "ascii ''standard''"] m
  have "map_option (map fst) (planned_docs (ascii ''c3'') (ascii ''standard'')) =
     Some [ascii ''00-epic-map.md'', ascii ''01-feature-story-map.md'', ascii ''02-core-spec.md'',
           ascii ''03-combo-decision.md'', ascii ''04-milestone-plan.md'', ascii ''05-ai-prompt-pack.md'',
           ascii ''30-scenario-list.md'', ascii ''31-api-contract-priority.md'', ascii ''32-data-model.md'',
           ascii ''10-prd-lite.md'', ascii ''11-architecture-lite.md'', ascii ''12-api-spec.md'',
           ascii ''13-database-design.md'', ascii ''14-risk-checklist.md'']"
    by (auto simp: BASELINE_DOCS_def BASE_DOCS_def STANDARD_DOCS_def)
  moreover from planned_docs_layers [OF c, of "ascii ''single-file''"]
  have "planned_docs (ascii ''c3'') (ascii ''single-file'') = Some [SINGLE_FILE_DOC]"
    by auto
  ultimately show ?thesis
    using c by simp
qed

section \<open>Boolean fields of the normalizer\<close>




text \<open>Strings of the recognized tokens and booleans do set the value.\<close>

lemma normalize_bool_tokens:
  "normalize_bool (PyStr (ascii ''1'')) False = True"
  "normalize_bool (PyStr (ascii '' Yes '')) False = True"
  "normalize_bool (PyStr (ascii ''0'')) True = False"
  "normalize_bool (PyBool True) False = True"
  by (simp_all add: normalize_bool_def str_eval)

section \<open>Properties of the quality gate\<close>








end
